theory Spec2Isabelle
  imports Main
begin

section \<open>The flash-results component of the Etcher GUI\<close>

text \<open>
  A shallow embedding of \<^verbatim>\<open>lib/gui/app/components/flash-results/flash-results.tsx\<close>.
  The component is a function from its props and its one piece of local state
  (\<^verbatim>\<open>showErrorsInfo\<close>) to a tree of elements; the tree is modelled by records
  holding what each element displays, and the event handlers by functions on the
  state they act on.
\<close>

subsection \<open>Data\<close>

text \<open>
  A selected drive, as returned by \<^verbatim>\<open>selection.getSelectedDrives()\<close>. The component
  reads its \<^verbatim>\<open>device\<close> field only.
\<close>

record drive =
  device :: string

text \<open>
  \<^verbatim>\<open>interface FlashError extends Error { description; device; code }\<close>. The fields
  \<^verbatim>\<open>name\<close> and \<^verbatim>\<open>message\<close> are inherited from \<^verbatim>\<open>Error\<close>; both are strings,
  and an error without a message has the empty one.
\<close>

record FlashError =
  description :: string
  device :: string
  code :: string
  name :: string
  message :: string

text \<open>
  The \<^verbatim>\<open>results\<close> prop. The byte counts and the speed are JavaScript numbers used in
  floating-point arithmetic; their type is the parameter \<open>'n\<close>. The two device
  counts are only compared with zero, tested for truth and displayed: they are
  integers.

  \<^verbatim>\<open>devices: { failed: number; successful: number }\<close> is a JavaScript object: besides
  the values of its two properties it has the order in which they were created,
  which is the order \<^verbatim>\<open>Object.entries\<close> enumerates them in. The declared type
  fixes the properties, not their order: \<^verbatim>\<open>{ failed: 1, successful: 2 }\<close> and
  \<^verbatim>\<open>{ successful: 2, failed: 1 }\<close> are both of this type.
\<close>

datatype property_order = FailedFirst | SuccessfulFirst

record devices =
  failed :: int
  successful :: int
  property_order :: property_order

record 'n sourceMetadata =
  size_bytes :: 'n
  blockmappedSize :: 'n

record 'n results =
  bytesWritten :: 'n
  sourceMetadata :: "'n sourceMetadata"
  averageFlashingSpeed :: 'n
  devices :: devices

text \<open>
  The state the handlers of the component act on: the local flag of
  \<^verbatim>\<open>React.useState(false)\<close>, the flash state of \<^verbatim>\<open>models/flash-state\<close> and the
  drive selection of \<^verbatim>\<open>models/selection-state\<close>.
\<close>

record 'f app_state =
  showErrorsInfo :: bool
  flashState :: 'f
  selectedDrives :: "drive list"

text \<open>
  What the component imports from modules that are not part of this file:
  \<^verbatim>\<open>progress\<close> (shared/messages), \<^verbatim>\<open>bytesToMegabytes\<close> (shared/units),
  \<^verbatim>\<open>middleEllipsis\<close> (utils/middle-ellipsis), \<^verbatim>\<open>resetState\<close> (models/flash-state),
  \<^verbatim>\<open>_.round\<close> (lodash), and the division of JavaScript numbers.
\<close>

record ('n, 'f) imported =
  progress :: "string \<Rightarrow> int \<Rightarrow> string"
  bytesToMegabytes :: "'n \<Rightarrow> 'n"
  middleEllipsis :: "string \<Rightarrow> nat \<Rightarrow> string"
  resetState :: "'f \<Rightarrow> 'f"
  lodash_round :: "'n \<Rightarrow> int \<Rightarrow> 'n"
  number_div :: "'n \<Rightarrow> 'n \<Rightarrow> 'n"

subsection \<open>Elements\<close>

datatype svg_component = CircleSvg | CheckCircleSvg | TimesCircleSvg | FlashSvg

record svg_style =
  style_width :: string
  style_height :: string
  style_marginTop :: string
  style_marginLeft :: string
  style_zIndex :: int
  style_color :: string

record svg_element =
  svg_component :: svg_component
  svg_width :: string
  svg_fill :: string
  svg_style :: svg_style

record DoneIcon_props =
  skipped :: bool
  allFailed :: bool
  someFailed :: bool

text \<open>One rendered summary row: the circle, the count, the label and the link.\<close>

record 'f summary_row =
  circle_fill :: string
  circle_color :: string
  quantity_txt :: int
  label_tooltip :: "string option"
  label_txt :: string
  more_info :: "('f app_state \<Rightarrow> 'f app_state) option"

record 'n speed_txt =
  speed_tooltip :: string
  speed_value :: 'n

record TableColumn =
  field :: string
  label :: string
  render :: "(string \<Rightarrow> FlashError \<Rightarrow> string) option"

record 'f modal =
  modal_title :: string
  modal_action :: string
  modal_cancel :: "'f app_state \<Rightarrow> 'f app_state"
  modal_done :: "'f app_state \<Rightarrow> 'f app_state"
  modal_table_head :: "string list"
  modal_table_body :: "string list list"

record ('n, 'f) flash_results_view =
  view_doneIcon :: svg_element
  view_image :: string
  view_skip_notice :: "string option"
  view_rows :: "'f summary_row option list"
  view_effective_speed :: "'n speed_txt option"
  view_modal :: "'f modal option"

subsection \<open>The completion icon\<close>

definition DoneIcon :: "DoneIcon_props \<Rightarrow> svg_element" where
  "DoneIcon props =
     (let someOrAllFailed = allFailed props \<or> someFailed props;
          fill = (if someOrAllFailed then ''#c6c8c9'' else ''#1ac135'');
          style = \<lparr>style_width = ''28px'', style_height = ''28px'',
                   style_marginTop = ''-25px'', style_marginLeft = ''13px'',
                   style_zIndex = 1,
                   style_color = (if someOrAllFailed then ''#c6c8c9'' else ''#1ac135'')\<rparr>
      in if allFailed props \<and> \<not> skipped props
         then \<lparr>svg_component = TimesCircleSvg, svg_width = ''24px'', svg_fill = fill,
               svg_style = style\<rparr>
         else \<lparr>svg_component = CheckCircleSvg, svg_width = ''24px'', svg_fill = fill,
               svg_style = style\<rparr>)"

subsection \<open>The tooltip of the failed targets\<close>

text \<open>
  \<^verbatim>\<open>a || b\<close> on strings: the first operand when it is truthy, that is, not empty.
\<close>

definition string_or :: "string \<Rightarrow> string \<Rightarrow> string" where
  "string_or a b = (if a \<noteq> [] then a else b)"

text \<open>
  \<^verbatim>\<open>Array.prototype.join\<close>: the result starts empty; the separator is appended
  before every element but the first.
\<close>

fun join_from :: "string \<Rightarrow> string \<Rightarrow> nat \<Rightarrow> string list \<Rightarrow> string" where
  "join_from sep R k [] = R"
| "join_from sep R k (x # xs) =
     join_from sep ((if 0 < k then R @ sep else R) @ x) (Suc k) xs"

definition join :: "string list \<Rightarrow> string \<Rightarrow> string" where
  "join xs sep = join_from sep [] 0 xs"

definition formattedErrors :: "FlashError list \<Rightarrow> string" where
  "formattedErrors errors =
     join (map (\<lambda>error. FlashError.device error @ '': '' @
                  string_or (message error) (code error)) errors)
          [CHR 0x0A]"

text \<open>
  The tooltip as the specification words it: one line
  \<open>device: message-or-code\<close> per error, the lines separated by newlines.
\<close>

definition spec_error_line :: "FlashError \<Rightarrow> string" where
  "spec_error_line e =
     FlashError.device e @ '': '' @ (if message e = [] then code e else message e)"

fun spec_lines :: "string list \<Rightarrow> string" where
  "spec_lines [] = []"
| "spec_lines [l] = l"
| "spec_lines (l # l' # ls) = l @ [CHR 0x0A] @ spec_lines (l' # ls)"

subsection \<open>The table of errors\<close>

definition columns :: "TableColumn list" where
  "columns =
     [\<lparr>field = ''description'', label = ''Target'', render = None\<rparr>,
      \<lparr>field = ''device'', label = ''Location'', render = None\<rparr>,
      \<lparr>field = ''message'', label = ''Error'',
       render = Some (\<lambda>message error. if message \<noteq> [] then message else code error)\<rparr>]"

text \<open>
  Property access \<^verbatim>\<open>row[field]\<close> on a FlashError; a name that is no property
  of it reads as the empty text in a cell.
\<close>

definition get_field :: "FlashError \<Rightarrow> string \<Rightarrow> string" where
  "get_field row f =
     (if f = ''description'' then description row
      else if f = ''device'' then FlashError.device row
      else if f = ''code'' then code row
      else if f = ''name'' then name row
      else if f = ''message'' then message row
      else [])"

text \<open>
  The table component: a cell shows \<^verbatim>\<open>render(row[field], row)\<close> when its column has
  a \<^verbatim>\<open>render\<close> function and \<^verbatim>\<open>row[field]\<close> otherwise; the head shows the labels.
\<close>

definition table_cell :: "TableColumn \<Rightarrow> FlashError \<Rightarrow> string" where
  "table_cell col row =
     (case render col of
        None \<Rightarrow> get_field row (field col)
      | Some r \<Rightarrow> r (get_field row (field col)) row)"

definition table_body :: "TableColumn list \<Rightarrow> FlashError list \<Rightarrow> string list list" where
  "table_body cols rows = map (\<lambda>row. map (\<lambda>col. table_cell col row) cols) rows"

subsection \<open>The handlers\<close>

definition setShowErrorsInfo :: "bool \<Rightarrow> 'f app_state \<Rightarrow> 'f app_state" where
  "setShowErrorsInfo b s = s\<lparr>showErrorsInfo := b\<rparr>"

text \<open>
  Modelled from the spec: \<^verbatim>\<open>selection.getSelectedDrives\<close> of models/selection-state,
  which is not part of this file: "list currently selected drives".
\<close>

definition getSelectedDrives :: "'f app_state \<Rightarrow> drive list" where
  "getSelectedDrives s = selectedDrives s"

text \<open>
  Modelled from the spec: \<^verbatim>\<open>selection.deselectDrive\<close> of models/selection-state,
  which is not part of this file: "deselect by device id". The drives with the
  given device identifier leave the selection.
\<close>

definition deselectDrive :: "string \<Rightarrow> 'f app_state \<Rightarrow> 'f app_state" where
  "deselectDrive dev s =
     s\<lparr>selectedDrives := filter (\<lambda>d. drive.device d \<noteq> dev) (selectedDrives s)\<rparr>"

text \<open>
  Modelled from the spec: \<^verbatim>\<open>resetState\<close> of models/flash-state, which is not part of
  this file: "a global reset function for flash-session state". It acts on the
  flash state, by the function given by the imports.
\<close>

definition call_resetState :: "('n, 'f) imported \<Rightarrow> 'f app_state \<Rightarrow> 'f app_state" where
  "call_resetState env s = s\<lparr>flashState := resetState env (flashState s)\<rparr>"

text \<open>\<^verbatim>\<open>forEach\<close>: the callback runs on each element in order.\<close>

fun forEach :: "'a list \<Rightarrow> ('a \<Rightarrow> 's \<Rightarrow> 's) \<Rightarrow> 's \<Rightarrow> 's" where
  "forEach [] f s = s"
| "forEach (x # xs) f s = forEach xs f (f x s)"

text \<open>The \<^verbatim>\<open>cancel\<close> handler of the dialog.\<close>

definition Modal_cancel :: "'f app_state \<Rightarrow> 'f app_state" where
  "Modal_cancel s = setShowErrorsInfo False s"

text \<open>
  The \<^verbatim>\<open>done\<close> handler of the dialog. \<open>goToMain\<close> is the callback the caller
  supplies; it may do anything to the state.
\<close>

definition Modal_done ::
  "('n, 'f) imported \<Rightarrow> ('f app_state \<Rightarrow> 'f app_state) \<Rightarrow> FlashError list
     \<Rightarrow> 'f app_state \<Rightarrow> 'f app_state" where
  "Modal_done env goToMain errors s =
     (let s1 = setShowErrorsInfo False s;
          s2 = call_resetState env s1;
          s3 = forEach
                 (filter (\<lambda>drive. list_all (\<lambda>error. FlashError.device error \<noteq> drive.device drive)
                                      errors)
                         (getSelectedDrives s2))
                 (\<lambda>drive. deselectDrive (drive.device drive))
                 s2
      in goToMain s3)"

subsection \<open>The component\<close>

text \<open>
  \<^verbatim>\<open>Object.entries(results.devices)\<close>: the properties of the object with their
  values, in the order of their creation.
\<close>

definition Object_entries :: "devices \<Rightarrow> (string \<times> int) list" where
  "Object_entries d =
     (case property_order d of
        FailedFirst \<Rightarrow> [(''failed'', failed d), (''successful'', successful d)]
      | SuccessfulFirst \<Rightarrow> [(''successful'', successful d), (''failed'', failed d)])"

text \<open>
  The callback of \<^verbatim>\<open>.map(([type, quantity]) => ...)\<close>: the row of one entry, or
  \<^verbatim>\<open>null\<close> (nothing rendered) when the quantity is falsy, that is, zero.
\<close>

definition summary_row ::
  "('n, 'f) imported \<Rightarrow> FlashError list \<Rightarrow> string \<times> int \<Rightarrow> 'f summary_row option" where
  "summary_row env errors entry =
     (case entry of (type, quantity) \<Rightarrow>
        (let failedTargets = (type = ''failed'')
         in if quantity \<noteq> 0
            then Some \<lparr>circle_fill = (if type = ''failed'' then ''#ff4444'' else ''#1ac135''),
                       circle_color = (if failedTargets then ''#ff4444'' else ''#1ac135''),
                       quantity_txt = quantity,
                       label_tooltip = (if failedTargets then Some (formattedErrors errors)
                                        else None),
                       label_txt = progress env type quantity,
                       more_info = (if failedTargets then Some (setShowErrorsInfo True)
                                    else None)\<rparr>
            else None))"

definition effectiveSpeed :: "('n, 'f) imported \<Rightarrow> 'n results \<Rightarrow> 'n" where
  "effectiveSpeed env results =
     lodash_round env
       (bytesToMegabytes env
          (number_div env (size_bytes (sourceMetadata results))
             (number_div env (bytesWritten results) (averageFlashingSpeed results))))
       1"

definition speed_tooltip_text :: string where
  "speed_tooltip_text =
     ''The speed is calculated by dividing the image size by the flashing time. '' @
     ''Disk images with ext partitions flash faster as we are able to skip unused parts.''"

text \<open>
  \<open>image'\<close> is the optional prop \<^verbatim>\<open>image\<close> with the default \<^verbatim>\<open>''\<close>; \<open>shown\<close> is the
  current value of the local state \<^verbatim>\<open>showErrorsInfo\<close>.
\<close>

definition FlashResults ::
  "('n, 'f) imported \<Rightarrow> ('f app_state \<Rightarrow> 'f app_state) \<Rightarrow> string option
     \<Rightarrow> FlashError list \<Rightarrow> 'n results \<Rightarrow> bool \<Rightarrow> bool \<Rightarrow> ('n, 'f) flash_results_view" where
  "FlashResults env goToMain image' errors results skip shown =
     (let image_name = (case image' of None \<Rightarrow> [] | Some i \<Rightarrow> i);
          allFailed = (successful (devices results) = 0)
      in \<lparr>view_doneIcon =
             DoneIcon \<lparr>skipped = skip, allFailed = allFailed,
                       someFailed = (failed (devices results) \<noteq> 0)\<rparr>,
           view_image = middleEllipsis env image_name 24,
           view_skip_notice = (if skip then Some ''Validation has been skipped'' else None),
           view_rows = map (summary_row env errors) (Object_entries (devices results)),
           view_effective_speed =
             (if \<not> allFailed
              then Some \<lparr>speed_tooltip = speed_tooltip_text, speed_value = effectiveSpeed env results\<rparr>
              else None),
           view_modal =
             (if shown
              then Some \<lparr>modal_title = ''Failed targets'',
                         modal_action = ''Retry failed targets'',
                         modal_cancel = Modal_cancel,
                         modal_done = Modal_done env goToMain errors,
                         modal_table_head = map label columns,
                         modal_table_body = table_body columns errors\<rparr>
              else None)\<rparr>)"

subsection \<open>A concrete run\<close>

text \<open>
  An instance of the imports and of the inputs, for evaluating the component on
  concrete values: three selected drives, of which \<^verbatim>\<open>/dev/sdb\<close> failed.
  The operations on numbers are not interpreted in this instance: a number is the
  expression that computes it, so that a run shows which operations were applied
  to which inputs, and nothing about floating-point results.
\<close>

datatype number_expr =
    Number int
  | Divide number_expr number_expr
  | BytesToMegabytes number_expr
  | RoundTo number_expr int

definition example_env :: "(number_expr, nat) imported" where
  "example_env =
     \<lparr>progress = (\<lambda>type quantity. if type = ''failed'' then ''Failed targets''
                                    else ''Successful targets''),
      bytesToMegabytes = BytesToMegabytes,
      middleEllipsis = (\<lambda>s n. s),
      resetState = (\<lambda>f. 0),
      lodash_round = RoundTo,
      number_div = Divide\<rparr>"

definition example_error :: FlashError where
  "example_error =
     \<lparr>description = ''SD card'', device = ''/dev/sdb'', code = ''EIO'',
      name = ''Error'', message = []\<rparr>"

definition example_error2 :: FlashError where
  "example_error2 =
     \<lparr>description = ''USB stick'', device = ''/dev/sdd'', code = ''EBUSY'',
      name = ''Error'', message = ''write failed''\<rparr>"

definition example_state :: "nat app_state" where
  "example_state =
     \<lparr>showErrorsInfo = True, flashState = 7,
      selectedDrives = [\<lparr>drive.device = ''/dev/sda''\<rparr>, \<lparr>drive.device = ''/dev/sdb''\<rparr>,
                        \<lparr>drive.device = ''/dev/sdc''\<rparr>]\<rparr>"

definition example_results :: "number_expr results" where
  "example_results =
     \<lparr>bytesWritten = Number 100,
      sourceMetadata = \<lparr>size_bytes = Number 200, blockmappedSize = Number 200\<rparr>,
      averageFlashingSpeed = Number 10,
      devices = \<lparr>failed = 1, successful = 2, property_order = FailedFirst\<rparr>\<rparr>"

definition example_all_failed :: "number_expr results" where
  "example_all_failed =
     \<lparr>bytesWritten = Number 100,
      sourceMetadata = \<lparr>size_bytes = Number 200, blockmappedSize = Number 200\<rparr>,
      averageFlashingSpeed = Number 10,
      devices = \<lparr>failed = 2, successful = 0, property_order = FailedFirst\<rparr>\<rparr>"

text \<open>The same counts as \<open>example_results\<close>, in \<^verbatim>\<open>{ successful: 2, failed: 1 }\<close>.\<close>

definition example_successful_first :: "number_expr results" where
  "example_successful_first =
     \<lparr>bytesWritten = Number 100,
      sourceMetadata = \<lparr>size_bytes = Number 200, blockmappedSize = Number 200\<rparr>,
      averageFlashingSpeed = Number 10,
      devices = \<lparr>failed = 1, successful = 2, property_order = SuccessfulFirst\<rparr>\<rparr>"

section \<open>Properties\<close>

subsection \<open>Auxiliary facts\<close>

lemma forEach_deselectDrive:
  "forEach ds (\<lambda>d. deselectDrive (drive.device d)) s =
     s\<lparr>selectedDrives :=
         filter (\<lambda>d. drive.device d \<notin> set (map drive.device ds)) (selectedDrives s)\<rparr>"
proof (induction ds arbitrary: s)
  case Nil
  show ?case by simp
next
  case (Cons x xs)
  let ?s' = "deselectDrive (drive.device x) s"
  have "forEach (x # xs) (\<lambda>d. deselectDrive (drive.device d)) s =
        forEach xs (\<lambda>d. deselectDrive (drive.device d)) ?s'"
    by simp
  also have "\<dots> = ?s'\<lparr>selectedDrives :=
      filter (\<lambda>d. drive.device d \<notin> set (map drive.device xs)) (selectedDrives ?s')\<rparr>"
    by (rule Cons.IH)
  also have "\<dots> = s\<lparr>selectedDrives :=
      filter (\<lambda>d. drive.device d \<notin> set (map drive.device (x # xs))) (selectedDrives s)\<rparr>"
    by (auto simp add: deselectDrive_def intro: filter_cong)
  finally show ?case .
qed

lemma every_differs:
  "list_all (\<lambda>error. FlashError.device error \<noteq> dev) errors =
     (dev \<notin> set (map FlashError.device errors))"
  by (induction errors) auto

lemma filter_keep_failed:
  "filter (\<lambda>d. drive.device d \<notin> set (map drive.device (filter (\<lambda>d. drive.device d \<notin> E) sel))) sel =
   filter (\<lambda>d. drive.device d \<in> E) sel"
  by (rule filter_cong) auto

lemma join_from_spec:
  "join_from sep R k ls =
     (if ls = [] then R else (if 0 < k then R @ sep else R) @ join_from sep [] 0 ls)"
proof (induction ls arbitrary: R k)
  case Nil
  show ?case by simp
next
  case (Cons l ls)
  let ?R' = "(if 0 < k then R @ sep else R) @ l"
  have step: "join_from sep R k (l # ls) = join_from sep ?R' (Suc k) ls"
    by simp
  have a: "join_from sep ?R' (Suc k) ls =
           (if ls = [] then ?R' else (?R' @ sep) @ join_from sep [] 0 ls)"
    by (subst Cons.IH) simp
  have "join_from sep [] 0 (l # ls) = join_from sep l (Suc 0) ls"
    by simp
  also have "\<dots> = (if ls = [] then l else (l @ sep) @ join_from sep [] 0 ls)"
    by (subst Cons.IH) simp
  finally have b: "join_from sep [] 0 (l # ls) =
                   (if ls = [] then l else (l @ sep) @ join_from sep [] 0 ls)" .
  show ?case
    unfolding step a b by simp
qed

lemma join_spec_lines: "join_from [CHR 0x0A] [] 0 ls = spec_lines ls"
proof (induction ls rule: spec_lines.induct)
  case (3 l l' ls)
  have "join_from [CHR 0x0A] [] 0 (l # l' # ls) = join_from [CHR 0x0A] l (Suc 0) (l' # ls)"
    by simp
  also have "\<dots> = (l @ [CHR 0x0A]) @ join_from [CHR 0x0A] [] 0 (l' # ls)"
    by (subst join_from_spec) simp
  finally show ?case
    using "3.IH" by simp
qed simp_all

lemma formattedErrors_spec:
  "formattedErrors errors = spec_lines (map spec_error_line errors)"
proof -
  have "(\<lambda>error. FlashError.device error @ '': '' @ string_or (message error) (code error)) =
        spec_error_line"
    by (rule ext) (simp add: spec_error_line_def string_or_def)
  then show ?thesis
    by (simp add: formattedErrors_def join_def join_spec_lines)
qed

subsection \<open>The dialog\<close>

text \<open>
  Claim C1. The confirm action of the error-detail dialog hides the dialog, resets
  the flash state, deselects every selected drive whose device identifier differs
  from that of every error, so that exactly the selected drives whose device occurs
  in the error list stay selected, and then calls \<open>goToMain\<close>, on the state so
  prepared. It is the \<^verbatim>\<open>done\<close> handler of the dialog the component renders.
\<close>

theorem done_keeps_failed_drives_selected:
  "Modal_done env goToMain errors s =
     goToMain (s\<lparr>showErrorsInfo := False,
                 flashState := resetState env (flashState s),
                 selectedDrives :=
                   filter (\<lambda>d. drive.device d \<in> set (map FlashError.device errors))
                          (selectedDrives s)\<rparr>)
   \<and> map_option modal_done
         (view_modal (FlashResults env goToMain image' errors results skip True)) =
       Some (Modal_done env goToMain errors)"
proof -
  let ?E = "set (map FlashError.device errors)"
  let ?s2 = "call_resetState env (setShowErrorsInfo False s)"
  have sel: "selectedDrives ?s2 = selectedDrives s"
    by (simp add: call_resetState_def setShowErrorsInfo_def)
  have every: "(\<lambda>drive. list_all (\<lambda>error. FlashError.device error \<noteq> drive.device drive) errors) =
               (\<lambda>d. drive.device d \<notin> ?E)"
    by (rule ext) (rule every_differs)
  have "Modal_done env goToMain errors s =
        goToMain (forEach (filter (\<lambda>d. drive.device d \<notin> ?E) (selectedDrives s))
                    (\<lambda>drive. deselectDrive (drive.device drive)) ?s2)"
    by (simp only: Modal_done_def Let_def getSelectedDrives_def sel every)
  also have "\<dots> = goToMain (?s2\<lparr>selectedDrives :=
                 filter (\<lambda>d. drive.device d \<in> ?E) (selectedDrives s)\<rparr>)"
    by (simp only: forEach_deselectDrive sel filter_keep_failed)
  finally have handler: "Modal_done env goToMain errors s =
     goToMain (s\<lparr>showErrorsInfo := False,
                 flashState := resetState env (flashState s),
                 selectedDrives := filter (\<lambda>d. drive.device d \<in> ?E) (selectedDrives s)\<rparr>)"
    by (simp add: call_resetState_def setShowErrorsInfo_def)
  have rendered: "map_option modal_done
         (view_modal (FlashResults env goToMain image' errors results skip True)) =
       Some (Modal_done env goToMain errors)"
    by (simp add: FlashResults_def Let_def)
  from handler rendered show ?thesis by (rule conjI)
qed

theorem done_keeps_failed_drives_selected_witness:
  "Modal_done example_env (\<lambda>s. s) [example_error] example_state =
     \<lparr>showErrorsInfo = False, flashState = 0,
      selectedDrives = [\<lparr>drive.device = ''/dev/sdb''\<rparr>]\<rparr>"
  using done_keeps_failed_drives_selected
          [of example_env "\<lambda>s. s" "[example_error]" example_state]
  by (simp add: example_env_def example_error_def example_state_def)

text \<open>
  Claim C8. Cancelling the error-detail dialog only sets the visibility flag to
  false: the flash state and the drive selection are as before, and the result
  does not depend on \<open>goToMain\<close> or on the reset function, whatever they are.
\<close>

theorem cancel_only_hides_dialog:
  "map_option (\<lambda>m. modal_cancel m s)
     (view_modal (FlashResults env goToMain image' errors results skip True)) =
     Some (s\<lparr>showErrorsInfo := False\<rparr>)
   \<and> Modal_cancel s = s\<lparr>showErrorsInfo := False\<rparr>
   \<and> flashState (Modal_cancel s) = flashState s
   \<and> selectedDrives (Modal_cancel s) = selectedDrives s"
  by (simp add: FlashResults_def Let_def Modal_cancel_def setShowErrorsInfo_def)

theorem cancel_only_hides_dialog_witness:
  "Modal_cancel example_state =
     \<lparr>showErrorsInfo = False, flashState = 7,
      selectedDrives = [\<lparr>drive.device = ''/dev/sda''\<rparr>, \<lparr>drive.device = ''/dev/sdb''\<rparr>,
                        \<lparr>drive.device = ''/dev/sdc''\<rparr>]\<rparr>"
  using cancel_only_hides_dialog
          [where s = example_state and env = example_env and errors = "[example_error]"
             and results = example_results and goToMain = "\<lambda>s. s" and image' = None
             and skip = False]
  by (simp add: example_state_def)

text \<open>
  Claim C7. In every row of the dialog's table of errors, the cell of the Error
  column (the third one) shows the message of the error when it has one, and its
  code otherwise.
\<close>

theorem error_column_message_or_code:
  "map_option (\<lambda>m. map (\<lambda>cells. cells ! 2) (modal_table_body m))
     (view_modal (FlashResults env goToMain image' errors results skip True)) =
     Some (map (\<lambda>e. if message e \<noteq> [] then message e else code e) errors)
   \<and> map_option (\<lambda>m. modal_table_head m ! 2)
       (view_modal (FlashResults env goToMain image' errors results skip True)) =
     Some ''Error''"
  by (simp add: FlashResults_def Let_def table_body_def columns_def table_cell_def
      get_field_def)

theorem error_column_message_or_code_witness:
  "map_option (\<lambda>m. map (\<lambda>cells. cells ! 2) (modal_table_body m))
     (view_modal (FlashResults example_env (\<lambda>s. s) None [example_error, example_error2]
                    example_results False True)) =
     Some [''EIO'', ''write failed'']"
  using error_column_message_or_code
          [of example_env "\<lambda>s. s" None "[example_error, example_error2]" example_results False]
  by (simp add: example_error_def example_error2_def)

subsection \<open>The completion icon\<close>

text \<open>
  Claim C2. The completion glyph is the failure glyph exactly when no device
  succeeded (\<^verbatim>\<open>results.devices.successful === 0\<close>) and \<open>skip\<close> is false; in every
  other case it is the success glyph.
\<close>

theorem doneIcon_glyph:
  "svg_component (view_doneIcon (FlashResults env goToMain image' errors results skip shown)) =
     (if successful (devices results) = 0 \<and> \<not> skip then TimesCircleSvg else CheckCircleSvg)"
  by (simp add: FlashResults_def DoneIcon_def Let_def)

theorem doneIcon_glyph_witness:
  "svg_component (view_doneIcon
     (FlashResults example_env (\<lambda>s. s) None [] example_all_failed False False)) = TimesCircleSvg
   \<and> svg_component (view_doneIcon
     (FlashResults example_env (\<lambda>s. s) None [] example_all_failed True False)) = CheckCircleSvg"
  using doneIcon_glyph [of example_env "\<lambda>s. s" None "[]" example_all_failed False False]
        doneIcon_glyph [of example_env "\<lambda>s. s" None "[]" example_all_failed True False]
  by (simp add: example_all_failed_def)

text \<open>
  Claim C9. The colour of the completion icon, as \<^verbatim>\<open>fill\<close> and as \<^verbatim>\<open>style.color\<close>,
  is the neutral gray when some device failed or none succeeded, and green when
  some device succeeded and none failed; the glyph makes no difference.
\<close>

theorem doneIcon_color:
  "svg_fill (view_doneIcon (FlashResults env goToMain image' errors results skip shown)) =
     (if failed (devices results) \<noteq> 0 \<or> successful (devices results) = 0
      then ''#c6c8c9'' else ''#1ac135'')
   \<and> style_color (svg_style
         (view_doneIcon (FlashResults env goToMain image' errors results skip shown))) =
     (if failed (devices results) \<noteq> 0 \<or> successful (devices results) = 0
      then ''#c6c8c9'' else ''#1ac135'')"
  by (simp add: FlashResults_def DoneIcon_def Let_def)

theorem doneIcon_color_witness:
  "svg_fill (view_doneIcon
     (FlashResults example_env (\<lambda>s. s) None [] example_results False False)) = ''#c6c8c9''"
  using doneIcon_color [of example_env "\<lambda>s. s" None "[]" example_results False False]
  by (simp add: example_results_def)

subsection \<open>The summary\<close>

text \<open>
  Claim C4. The effective-speed text is not rendered when no device succeeded
  (\<^verbatim>\<open>results.devices.successful === 0\<close>), and it is rendered when some device did.
\<close>

theorem effective_speed_rendered_iff_some_succeeded:
  "(view_effective_speed (FlashResults env goToMain image' errors results skip shown) = None) =
     (successful (devices results) = 0)"
  by (simp add: FlashResults_def Let_def)

theorem effective_speed_rendered_iff_some_succeeded_witness:
  "view_effective_speed
     (FlashResults example_env (\<lambda>s. s) None [] example_all_failed False False) = None"
  using effective_speed_rendered_iff_some_succeeded
          [of example_env "\<lambda>s. s" None "[]" example_all_failed False False]
  by (simp add: example_all_failed_def)

text \<open>
  Claim C3. The effective speed that is displayed is the image size divided by
  the quotient of the bytes written and the average flashing speed, converted from
  bytes to megabytes and rounded to one decimal place: whatever the division, the
  conversion and the rounding compute, they are applied in this way to these
  inputs.
\<close>

theorem effective_speed_value:
  "successful (devices results) \<noteq> 0 \<Longrightarrow>
   map_option speed_value
     (view_effective_speed (FlashResults env goToMain image' errors results skip shown)) =
     Some (lodash_round env
             (bytesToMegabytes env
                (number_div env (size_bytes (sourceMetadata results))
                   (number_div env (bytesWritten results) (averageFlashingSpeed results))))
             1)"
  by (simp add: FlashResults_def Let_def effectiveSpeed_def)

theorem effective_speed_value_witness:
  "successful (devices example_results) \<noteq> 0
   \<and> map_option speed_value
       (view_effective_speed
          (FlashResults example_env (\<lambda>s. s) None [] example_results False False)) =
     Some (RoundTo (BytesToMegabytes (Divide (Number 200) (Divide (Number 100) (Number 10)))) 1)"
proof -
  have h: "successful (devices example_results) \<noteq> 0"
    by (simp add: example_results_def)
  show ?thesis
    using h effective_speed_value
            [OF h, where env = example_env and goToMain = "\<lambda>s. s" and image' = None
               and errors = "[]" and skip = False and shown = False]
    by (simp add: example_results_def example_env_def)
qed

text \<open>
  Claim C5. For every category of \<^verbatim>\<open>results.devices\<close>, a summary row is rendered
  if and only if the quantity of the category is not zero; a rendered row shows
  the indicator, the quantity and the label of its category.
\<close>

theorem summary_row_iff_nonzero:
  "list_all2
     (\<lambda>entry row. case entry of (type, quantity) \<Rightarrow>
        (case row of
           None \<Rightarrow> quantity = 0
         | Some r \<Rightarrow> quantity \<noteq> 0 \<and> quantity_txt r = quantity
                     \<and> label_txt r = progress env type quantity
                     \<and> circle_fill r = (if type = ''failed'' then ''#ff4444'' else ''#1ac135'')))
     (Object_entries (devices results))
     (view_rows (FlashResults env goToMain image' errors results skip shown))"
  by (cases "property_order (devices results)")
     (simp_all add: FlashResults_def Let_def Object_entries_def summary_row_def)

theorem summary_row_iff_nonzero_witness:
  "map (map_option quantity_txt)
     (view_rows (FlashResults example_env (\<lambda>s. s) None [] example_all_failed False False)) =
     [Some 2, None]"
  using summary_row_iff_nonzero
          [where env = example_env and results = example_all_failed and errors = "[]"
             and goToMain = "\<lambda>s. s" and image' = None and skip = False and shown = False]
  by (auto simp add: example_all_failed_def Object_entries_def list_all2_Cons1
      split: option.splits)



text \<open>
  Claim C10, as amended. The summary rows are the rows of the properties of
  \<^verbatim>\<open>results.devices\<close> in the order in which the object enumerates them: the row
  position of \<^verbatim>\<open>failed\<close> and that of \<^verbatim>\<open>successful\<close>, the one created first coming
  first. There are these two positions and no other, so no row of \<^verbatim>\<open>skipped\<close> or
  of any other category is rendered.
\<close>

theorem summary_rows_follow_property_order:
  "view_rows (FlashResults env goToMain image' errors results skip shown) =
     (case property_order (devices results) of
        FailedFirst \<Rightarrow>
          [summary_row env errors (''failed'', failed (devices results)),
           summary_row env errors (''successful'', successful (devices results))]
      | SuccessfulFirst \<Rightarrow>
          [summary_row env errors (''successful'', successful (devices results)),
           summary_row env errors (''failed'', failed (devices results))])
   \<and> set (view_rows (FlashResults env goToMain image' errors results skip shown)) =
       {summary_row env errors (''failed'', failed (devices results)),
        summary_row env errors (''successful'', successful (devices results))}
   \<and> length (view_rows (FlashResults env goToMain image' errors results skip shown)) = 2"
  by (cases "property_order (devices results)")
     (auto simp add: FlashResults_def Let_def Object_entries_def)

theorem summary_rows_follow_property_order_witness:
  "map (map_option label_txt)
     (view_rows (FlashResults example_env (\<lambda>s. s) None [] example_results False False)) =
     [Some ''Failed targets'', Some ''Successful targets'']"
  using summary_rows_follow_property_order
          [where results = example_results and env = example_env and errors = "[]"
             and goToMain = "\<lambda>s. s" and image' = None and skip = False and shown = False]
  by (simp add: example_results_def example_env_def summary_row_def)

text \<open>
  Claim C10, as first stated, has the categories iterated in the order
  \<^verbatim>\<open>failed\<close>, \<^verbatim>\<open>successful\<close> for every input. For
  \<^verbatim>\<open>devices = { successful: 2, failed: 1 }\<close> the component renders the row of the
  successful targets (green, 2) first and the row of the failed ones (red, 1)
  second.
\<close>

theorem summary_rows_successful_first_counterexample:
  "map fst (Object_entries (devices example_successful_first)) \<noteq> [''failed'', ''successful'']
   \<and> map (map_option circle_fill)
       (view_rows (FlashResults example_env id None [] example_successful_first
                     False False)) =
     [Some ''#1ac135'', Some ''#ff4444'']
   \<and> map (map_option quantity_txt)
       (view_rows (FlashResults example_env id None [] example_successful_first
                     False False)) =
     [Some 2, Some 1]
   \<and> map (map_option label_txt)
       (view_rows (FlashResults example_env id None [] example_successful_first
                     False False)) =
     [Some ''Successful targets'', Some ''Failed targets'']"
  by (simp add: FlashResults_def Let_def Object_entries_def summary_row_def
      example_successful_first_def example_env_def)

end
